theory Spec2Isabelle
  imports Main
begin

section \<open>The configuration record\<close>

text \<open>
  Both builders of \<^verbatim>\<open>cpp_config.py\<close> produce one Python dictionary of fixed shape,
  \<^verbatim>\<open>{"configurations": [{...}], "version": 4}\<close>. A dictionary literal with fixed keys is
  a record here; the fields stand in the order of the literal, which is the order in
  which \<^verbatim>\<open>json.dump\<close> prints them.
\<close>

record configuration =
  name :: string
  includePath :: "string list"
  compilerPath :: string
  cStandard :: string
  cppStandard :: string
  intelliSenseMode :: string

record c_cpp_properties =
  configurations :: "configuration list"
  version :: int

text \<open>
  The exceptions the program can end with. \<^verbatim>\<open>ValueError\<close> carries its message; the
  operating system's errors carry the path they are about.
\<close>

datatype error =
    ValueError string
  | FileExistsError string
  | IsADirectoryError string
  | PermissionError string


section \<open>Class \<^verbatim>\<open>Cpp_config\<close>: the validating builder\<close>

text \<open>
  \<^verbatim>\<open>__init__\<close> stores its three arguments, each \<^verbatim>\<open>str | None\<close>, defaulting to
  \<^verbatim>\<open>None\<close>.
\<close>

record cpp_config =
  ruta_compilador :: "string option"
  python_dll :: "string option"
  pybind11_dll :: "string option"

text \<open>
  Python's \<^verbatim>\<open>not x\<close> on a value of type \<^verbatim>\<open>str | None\<close>: true for \<^verbatim>\<open>None\<close> and
  for the empty string.
\<close>

definition py_not :: "string option \<Rightarrow> bool" where
  "py_not x = (case x of None \<Rightarrow> True | Some s \<Rightarrow> s = [])"

definition build_config_estandar :: "cpp_config \<Rightarrow> error + c_cpp_properties" where
  "build_config_estandar self =
     (if py_not (ruta_compilador self) then Inl (ValueError ''ruta_compilador es requerido'')
      else Inr \<lparr>configurations =
                  [\<lparr>name = ''MSVC'',
                    includePath = [''${workspaceFolder}/**''],
                    compilerPath = the (ruta_compilador self),
                    cStandard = ''c17'',
                    cppStandard = ''c++20'',
                    intelliSenseMode = ''windows-msvc-x64''\<rparr>],
                version = 4\<rparr>)"

definition build_config_pybind :: "cpp_config \<Rightarrow> error + c_cpp_properties" where
  "build_config_pybind self =
     (if py_not (ruta_compilador self) then Inl (ValueError ''ruta_compilador es requerido'')
      else if py_not (python_dll self) then Inl (ValueError ''python_dll es requerido'')
      else if py_not (pybind11_dll self) then Inl (ValueError ''pybind11_dll es requerido'')
      else Inr \<lparr>configurations =
                  [\<lparr>name = ''MSVC'',
                    includePath =
                      [''${workspaceFolder}/**'',
                       the (pybind11_dll self),
                       the (python_dll self)],
                    compilerPath = the (ruta_compilador self),
                    cStandard = ''c17'',
                    cppStandard = ''c++20'',
                    intelliSenseMode = ''windows-msvc-x64''\<rparr>],
                version = 4\<rparr>)"


section \<open>The module constants of the preset builder\<close>

definition estandar_1 :: c_cpp_properties where
  "estandar_1 =
     \<lparr>configurations =
        [\<lparr>name = ''MSVC'',
          includePath =
            [''${workspaceFolder}/**'',
             ''C:/Users/SZ/AppData/Local/Programs/Python/Python312/Lib/site-packages/pybind11/include'',
             ''C:/Users/SZ/AppData/Local/Programs/Python/Python312/include''],
          compilerPath = ''C:/Program Files (x86)/Microsoft Visual Studio/2022/BuildTools/VC/Tools/MSVC/14.44.35207/bin/Hostx64/x64/cl.exe'',
          cStandard = ''c17'',
          cppStandard = ''c++20'',
          intelliSenseMode = ''windows-msvc-x64''\<rparr>],
      version = 4\<rparr>"

definition pybind_2 :: c_cpp_properties where
  "pybind_2 =
     \<lparr>configurations =
        [\<lparr>name = ''MSVC'',
          includePath =
            [''${workspaceFolder}/**'',
             ''C:/Users/SZ/AppData/Local/Programs/Python/Python312/Lib/site-packages/pybind11/include'',
             ''C:/Users/SZ/AppData/Local/Programs/Python/Python312/include''],
          compilerPath = ''C:/Program Files (x86)/Microsoft Visual Studio/2022/BuildTools/VC/Tools/MSVC/14.44.35207/bin/Hostx64/x64/cl.exe'',
          cStandard = ''c17'',
          cppStandard = ''c++20'',
          intelliSenseMode = ''windows-msvc-x64''\<rparr>],
      version = 4\<rparr>"


section \<open>Serialisation: \<^verbatim>\<open>json.dump(obj, f, indent=4)\<close>\<close>

text \<open>
  \<^verbatim>\<open>json.dump\<close> belongs to Python's standard library. What follows is its output for a
  dictionary of the shape above under the call's settings (\<^verbatim>\<open>indent=4\<close>, hence the
  separators \<^verbatim>\<open>","\<close> and \<^verbatim>\<open>": "\<close>, and the default \<^verbatim>\<open>ensure_ascii=True\<close>). A
  \<open>char\<close> is read as the code point of the same number, so the model covers the
  strings of code points below 256.
\<close>

definition hex_digit :: "nat \<Rightarrow> char" where
  "hex_digit n = ''0123456789abcdef'' ! (n mod 16)"

text \<open>
  The encoder's escape table: backslash, double quote and the five control characters
  with a short form; every other character outside \<^verbatim>\<open>' '..'~'\<close> becomes
  \<^verbatim>\<open>\uXXXX\<close> with four lower-case hexadecimal digits.
\<close>

definition escape_char :: "char \<Rightarrow> string" where
  "escape_char c =
     (if c = CHR 0x5C then [CHR 0x5C, CHR 0x5C]
      else if c = CHR 0x22 then [CHR 0x5C, CHR 0x22]
      else if c = CHR 0x08 then [CHR 0x5C, CHR ''b'']
      else if c = CHR 0x0C then [CHR 0x5C, CHR ''f'']
      else if c = CHR 0x0A then [CHR 0x5C, CHR ''n'']
      else if c = CHR 0x0D then [CHR 0x5C, CHR ''r'']
      else if c = CHR 0x09 then [CHR 0x5C, CHR ''t'']
      else if 32 \<le> (of_char c :: nat) \<and> (of_char c :: nat) \<le> 126 then [c]
      else [CHR 0x5C, CHR ''u'', CHR ''0'', CHR ''0'',
            hex_digit (of_char c div 16), hex_digit (of_char c mod 16)])"

definition dump_str :: "string \<Rightarrow> string" where
  "dump_str s = [CHR 0x22] @ concat (map escape_char s) @ [CHR 0x22]"

fun nat_digits :: "nat \<Rightarrow> string" where
  "nat_digits n =
     (if n < 10 then [hex_digit n] else nat_digits (n div 10) @ [hex_digit (n mod 10)])"

declare nat_digits.simps [simp del]

definition dump_int :: "int \<Rightarrow> string" where
  "dump_int i = (if i < 0 then CHR ''-'' # nat_digits (nat (- i)) else nat_digits (nat i))"

text \<open>A line break followed by the indentation of a nesting level.\<close>

definition newline_indent :: "nat \<Rightarrow> string" where
  "newline_indent level = CHR 0x0A # replicate (4 * level) CHR '' ''"

fun join :: "string \<Rightarrow> string list \<Rightarrow> string" where
  "join sep [] = []"
| "join sep [x] = x"
| "join sep (x # y # ys) = x @ sep @ join sep (y # ys)"

text \<open>
  A list and a dictionary whose elements are already rendered; \<open>level\<close> is the nesting
  level of the enclosing bracket. Empty containers print without a line break.
\<close>

definition dump_list :: "nat \<Rightarrow> string list \<Rightarrow> string" where
  "dump_list level items =
     (if items = [] then ''[]''
      else ''['' @ newline_indent (Suc level)
           @ join ('','' @ newline_indent (Suc level)) items
           @ newline_indent level @ '']'')"

definition dump_dict :: "nat \<Rightarrow> (string \<times> string) list \<Rightarrow> string" where
  "dump_dict level items =
     (if items = [] then ''{}''
      else ''{'' @ newline_indent (Suc level)
           @ join ('','' @ newline_indent (Suc level))
               (map (\<lambda>(k, v). dump_str k @ '': '' @ v) items)
           @ newline_indent level @ ''}'')"

definition dump_configuration :: "nat \<Rightarrow> configuration \<Rightarrow> string" where
  "dump_configuration level c =
     dump_dict level
       [(''name'', dump_str (name c)),
        (''includePath'', dump_list (Suc level) (map dump_str (includePath c))),
        (''compilerPath'', dump_str (compilerPath c)),
        (''cStandard'', dump_str (cStandard c)),
        (''cppStandard'', dump_str (cppStandard c)),
        (''intelliSenseMode'', dump_str (intelliSenseMode c))]"

definition json_dump :: "c_cpp_properties \<Rightarrow> string" where
  "json_dump d =
     dump_dict 0
       [(''configurations'', dump_list 1 (map (dump_configuration 2) (configurations d))),
        (''version'', dump_int (version d))]"


section \<open>The file system the program writes to\<close>

text \<open>
  The program reaches the operating system through \<^verbatim>\<open>os.getcwd\<close>, \<^verbatim>\<open>os.makedirs\<close>
  and \<^verbatim>\<open>open(..., "w")\<close>. The environment is the current working directory, the nodes
  of the file system under the path strings the program builds, and the set of paths
  on which the operating system refuses to create or to write. A file's content is the
  text written to its text-mode stream. Paths are compared as strings, and
  intermediate directories are not tracked.
\<close>

datatype node = Directory | File string

record env =
  cwd :: string
  fs :: "string \<rightharpoonup> node"
  denied :: "string set"

definition getcwd :: "env \<Rightarrow> string" where
  "getcwd s = cwd s"

text \<open>
  \<^verbatim>\<open>os.makedirs(p, exist_ok=True)\<close>: an existing directory is accepted as it is, a file
  in its place is an error, otherwise the directory is created.
\<close>

definition makedirs_exist_ok :: "string \<Rightarrow> env \<Rightarrow> (error + unit) \<times> env" where
  "makedirs_exist_ok p s =
     (case fs s p of
        Some Directory \<Rightarrow> (Inr (), s)
      | Some (File _) \<Rightarrow> (Inl (FileExistsError p), s)
      | None \<Rightarrow>
          if p \<in> denied s then (Inl (PermissionError p), s)
          else (Inr (), s\<lparr>fs := (fs s)(p \<mapsto> Directory)\<rparr>))"

text \<open>
  \<^verbatim>\<open>open(p, "w")\<close>: creates the file or truncates it to nothing, and returns the
  stream, which the model identifies with the path.
\<close>

definition open_w :: "string \<Rightarrow> env \<Rightarrow> (error + string) \<times> env" where
  "open_w p s =
     (case fs s p of
        Some Directory \<Rightarrow> (Inl (IsADirectoryError p), s)
      | _ \<Rightarrow>
          if p \<in> denied s then (Inl (PermissionError p), s)
          else (Inr p, s\<lparr>fs := (fs s)(p \<mapsto> File [])\<rparr>))"

text \<open>Writing to an open stream appends to the file's content.\<close>

definition write_text :: "string \<Rightarrow> string \<Rightarrow> env \<Rightarrow> env" where
  "write_text f txt s =
     (case fs s f of
        Some (File old) \<Rightarrow> s\<lparr>fs := (fs s)(f \<mapsto> File (old @ txt))\<rparr>
      | _ \<Rightarrow> s)"


section \<open>Persisting: the four \<^verbatim>\<open>config_*\<close> methods\<close>

text \<open>
  Each method returns the exception it ends with, or \<open>Inr ()\<close>, together with the
  environment it leaves behind: an exception does not undo what was done before it.
  In \<^verbatim>\<open>json.dump(self._build_config_estandar(), f, indent=4)\<close> the argument is
  evaluated inside the \<^verbatim>\<open>with\<close> block, after \<^verbatim>\<open>os.makedirs\<close> and \<^verbatim>\<open>open\<close> have
  run.
\<close>

definition config_estandar ::
  "cpp_config \<Rightarrow> string option \<Rightarrow> env \<Rightarrow> (error + unit) \<times> env" where
  "config_estandar self ruta_arg s =
     (let ruta = (case ruta_arg of None \<Rightarrow> getcwd s | Some r \<Rightarrow> r) in
      case makedirs_exist_ok (ruta @ ''/.vscode'') s of
        (Inl e, s1) \<Rightarrow> (Inl e, s1)
      | (Inr _, s1) \<Rightarrow>
          (case open_w (ruta @ ''/.vscode/c_cpp_properties.json'') s1 of
             (Inl e, s2) \<Rightarrow> (Inl e, s2)
           | (Inr f, s2) \<Rightarrow>
               (case build_config_estandar self of
                  Inl e \<Rightarrow> (Inl e, s2)
                | Inr d \<Rightarrow> (Inr (), write_text f (json_dump d) s2))))"

definition config_pybind ::
  "cpp_config \<Rightarrow> string option \<Rightarrow> env \<Rightarrow> (error + unit) \<times> env" where
  "config_pybind self ruta_arg s =
     (let ruta = (case ruta_arg of None \<Rightarrow> getcwd s | Some r \<Rightarrow> r) in
      case makedirs_exist_ok (ruta @ ''/.vscode'') s of
        (Inl e, s1) \<Rightarrow> (Inl e, s1)
      | (Inr _, s1) \<Rightarrow>
          (case open_w (ruta @ ''/.vscode/c_cpp_properties.json'') s1 of
             (Inl e, s2) \<Rightarrow> (Inl e, s2)
           | (Inr f, s2) \<Rightarrow>
               (case build_config_pybind self of
                  Inl e \<Rightarrow> (Inl e, s2)
                | Inr d \<Rightarrow> (Inr (), write_text f (json_dump d) s2))))"

text \<open>
  Class \<^verbatim>\<open>Cpp_config_auto\<close> has no attributes: an instance carries no data.
\<close>

type_synonym cpp_config_auto = unit

definition auto_config_estandar ::
  "cpp_config_auto \<Rightarrow> string option \<Rightarrow> env \<Rightarrow> (error + unit) \<times> env" where
  "auto_config_estandar self ruta_arg s =
     (let ruta = (case ruta_arg of None \<Rightarrow> getcwd s | Some r \<Rightarrow> r) in
      case makedirs_exist_ok (ruta @ ''/.vscode'') s of
        (Inl e, s1) \<Rightarrow> (Inl e, s1)
      | (Inr _, s1) \<Rightarrow>
          (case open_w (ruta @ ''/.vscode/c_cpp_properties.json'') s1 of
             (Inl e, s2) \<Rightarrow> (Inl e, s2)
           | (Inr f, s2) \<Rightarrow> (Inr (), write_text f (json_dump estandar_1) s2)))"

definition auto_config_pybind ::
  "cpp_config_auto \<Rightarrow> string option \<Rightarrow> env \<Rightarrow> (error + unit) \<times> env" where
  "auto_config_pybind self ruta_arg s =
     (let ruta = (case ruta_arg of None \<Rightarrow> getcwd s | Some r \<Rightarrow> r) in
      case makedirs_exist_ok (ruta @ ''/.vscode'') s of
        (Inl e, s1) \<Rightarrow> (Inl e, s1)
      | (Inr _, s1) \<Rightarrow>
          (case open_w (ruta @ ''/.vscode/c_cpp_properties.json'') s1 of
             (Inl e, s2) \<Rightarrow> (Inl e, s2)
           | (Inr f, s2) \<Rightarrow> (Inr (), write_text f (json_dump pybind_2) s2)))"


section \<open>Vocabulary of the properties\<close>

text \<open>
  The directory a call is aimed at, the subdirectory it ensures and the file it writes.
\<close>

definition target :: "string option \<Rightarrow> env \<Rightarrow> string" where
  "target ruta_arg s = (case ruta_arg of None \<Rightarrow> cwd s | Some r \<Rightarrow> r)"

definition vscode_dir :: "string option \<Rightarrow> env \<Rightarrow> string" where
  "vscode_dir ruta_arg s = target ruta_arg s @ ''/.vscode''"

definition properties_file :: "string option \<Rightarrow> env \<Rightarrow> string" where
  "properties_file ruta_arg s = target ruta_arg s @ ''/.vscode/c_cpp_properties.json''"

text \<open>
  The four persistence operations as one family, the record each of them hands to
  \<^verbatim>\<open>json.dump\<close> (or the error its builder raises), and the operation itself.
\<close>

datatype call =
    Config_estandar cpp_config
  | Config_pybind cpp_config
  | Auto_config_estandar cpp_config_auto
  | Auto_config_pybind cpp_config_auto

fun built :: "call \<Rightarrow> error + c_cpp_properties" where
  "built (Config_estandar self) = build_config_estandar self"
| "built (Config_pybind self) = build_config_pybind self"
| "built (Auto_config_estandar self) = Inr estandar_1"
| "built (Auto_config_pybind self) = Inr pybind_2"

fun run :: "call \<Rightarrow> string option \<Rightarrow> env \<Rightarrow> (error + unit) \<times> env" where
  "run (Config_estandar self) = config_estandar self"
| "run (Config_pybind self) = config_pybind self"
| "run (Auto_config_estandar self) = auto_config_estandar self"
| "run (Auto_config_pybind self) = auto_config_pybind self"

text \<open>
  The four methods share one body and differ in the record they hand to
  \<^verbatim>\<open>json.dump\<close>. \<open>emit\<close> is that body with the outcome of building the record as its
  argument; \<open>run_emit\<close> below shows that each method is an instance of it.
\<close>

definition emit ::
  "error + c_cpp_properties \<Rightarrow> string option \<Rightarrow> env \<Rightarrow> (error + unit) \<times> env" where
  "emit b ruta_arg s =
     (case makedirs_exist_ok (vscode_dir ruta_arg s) s of
        (Inl e, s1) \<Rightarrow> (Inl e, s1)
      | (Inr _, s1) \<Rightarrow>
          (case open_w (properties_file ruta_arg s) s1 of
             (Inl e, s2) \<Rightarrow> (Inl e, s2)
           | (Inr f, s2) \<Rightarrow>
               (case b of
                  Inl e \<Rightarrow> (Inl e, s2)
                | Inr d \<Rightarrow> (Inr (), write_text f (json_dump d) s2))))"

text \<open>
  The five fields the format fixes, read off a record: the record has one profile,
  and each fixed field holds its constant.
\<close>

definition fixed_fields :: "c_cpp_properties \<Rightarrow> bool" where
  "fixed_fields d \<longleftrightarrow>
     map name (configurations d) = [''MSVC''] \<and>
     map cStandard (configurations d) = [''c17''] \<and>
     map cppStandard (configurations d) = [''c++20''] \<and>
     map intelliSenseMode (configurations d) = [''windows-msvc-x64''] \<and>
     version d = 4"


section \<open>Facts about the operating-system steps and the shared body\<close>

lemma run_emit: "run c ruta s = emit (built c) ruta s"
proof (cases c)
  case (Config_estandar self)
  show ?thesis
    unfolding Config_estandar run.simps built.simps config_estandar_def emit_def vscode_dir_def
      properties_file_def target_def getcwd_def Let_def sum.case
    by (rule refl)
next
  case (Config_pybind self)
  show ?thesis
    unfolding Config_pybind run.simps built.simps config_pybind_def emit_def vscode_dir_def
      properties_file_def target_def getcwd_def Let_def sum.case
    by (rule refl)
next
  case (Auto_config_estandar self)
  show ?thesis
    unfolding Auto_config_estandar run.simps built.simps auto_config_estandar_def emit_def vscode_dir_def
      properties_file_def target_def getcwd_def Let_def sum.case
    by (rule refl)
next
  case (Auto_config_pybind self)
  show ?thesis
    unfolding Auto_config_pybind run.simps built.simps auto_config_pybind_def emit_def vscode_dir_def
      properties_file_def target_def getcwd_def Let_def sum.case
    by (rule refl)
qed

lemma makedirs_exist_ok_cases:
  "makedirs_exist_ok p s =
     (if fs s p = Some Directory then (Inr (), s)
      else if fs s p \<noteq> None then (Inl (FileExistsError p), s)
      else if p \<in> denied s then (Inl (PermissionError p), s)
      else (Inr (), s\<lparr>fs := (fs s)(p \<mapsto> Directory)\<rparr>))"
  by (simp add: makedirs_exist_ok_def split: option.split node.split)

lemma makedirs_exist_ok_Inr:
  assumes "makedirs_exist_ok p s = (Inr u, s1)"
  shows "fs s1 = (fs s)(p \<mapsto> Directory)" and "cwd s1 = cwd s" and "denied s1 = denied s"
  using assms by (auto simp: makedirs_exist_ok_cases split: if_splits)

lemma makedirs_exist_ok_Inl:
  assumes "makedirs_exist_ok p s = (Inl e, s1)"
  shows "s1 = s" and "e = FileExistsError p \<or> e = PermissionError p"
  using assms by (auto simp: makedirs_exist_ok_cases split: if_splits)

lemma open_w_Inr:
  assumes "open_w p s = (Inr f, s2)"
  shows "f = p" and "s2 = s\<lparr>fs := (fs s)(p \<mapsto> File [])\<rparr>"
  using assms by (auto simp: open_w_def split: option.splits node.splits if_splits)

lemma open_w_Inl:
  assumes "open_w p s = (Inl e, s2)"
  shows "s2 = s" and "e = IsADirectoryError p \<or> e = PermissionError p"
  using assms by (auto simp: open_w_def split: option.splits node.splits if_splits)

lemma write_text_fresh:
  "write_text p txt (s\<lparr>fs := (fs s)(p \<mapsto> File [])\<rparr>) = s\<lparr>fs := (fs s)(p \<mapsto> File txt)\<rparr>"
  by (simp add: write_text_def)

lemma vscode_dir_neq_properties_file: "vscode_dir ruta s \<noteq> properties_file ruta s"
  by (simp add: vscode_dir_def properties_file_def)

lemma emit_Inr:
  assumes "emit b ruta s = (Inr u, s')"
  shows "\<exists>d. b = Inr d \<and>
           fs s' = (fs s)(vscode_dir ruta s \<mapsto> Directory,
                          properties_file ruta s \<mapsto> File (json_dump d)) \<and>
           cwd s' = cwd s \<and> denied s' = denied s"
proof -
  obtain r1 s1 where m: "makedirs_exist_ok (vscode_dir ruta s) s = (r1, s1)"
    by (cases "makedirs_exist_ok (vscode_dir ruta s) s")
  show ?thesis
  proof (cases r1)
    case (Inl e)
    with m assms show ?thesis by (simp add: emit_def)
  next
    case (Inr u1)
    note m1 = makedirs_exist_ok_Inr [OF m [unfolded Inr]]
    obtain r2 s2 where ow: "open_w (properties_file ruta s) s1 = (r2, s2)"
      by (cases "open_w (properties_file ruta s) s1")
    show ?thesis
    proof (cases r2)
      case (Inl e)
      with m Inr ow assms show ?thesis by (simp add: emit_def)
    next
      case f: (Inr f)
      note o = open_w_Inr [OF ow [unfolded f]]
      show ?thesis
      proof (cases b)
        case (Inl e)
        with m Inr ow f assms show ?thesis by (simp add: emit_def)
      next
        case d: (Inr d)
        have "s' = write_text (properties_file ruta s) (json_dump d)
                     (s1\<lparr>fs := (fs s1)(properties_file ruta s \<mapsto> File [])\<rparr>)"
          using m Inr ow f d assms o by (simp add: emit_def)
        then have "s' = s1\<lparr>fs := (fs s1)(properties_file ruta s \<mapsto> File (json_dump d))\<rparr>"
          by (simp only: write_text_fresh)
        with m1 d show ?thesis by simp
      qed
    qed
  qed
qed

lemma emit_Inl:
  assumes "emit b ruta s = (Inl e, s')"
  shows "(makedirs_exist_ok (vscode_dir ruta s) s = (Inl e, s') \<and> s' = s) \<or>
         (\<exists>s1. makedirs_exist_ok (vscode_dir ruta s) s = (Inr (), s1) \<and>
               open_w (properties_file ruta s) s1 = (Inl e, s') \<and> s' = s1) \<or>
         (b = Inl e \<and>
          fs s' = (fs s)(vscode_dir ruta s \<mapsto> Directory, properties_file ruta s \<mapsto> File []) \<and>
          cwd s' = cwd s \<and> denied s' = denied s)"
proof -
  obtain r1 s1 where m: "makedirs_exist_ok (vscode_dir ruta s) s = (r1, s1)"
    by (cases "makedirs_exist_ok (vscode_dir ruta s) s")
  show ?thesis
  proof (cases r1)
    case (Inl e1)
    with m assms makedirs_exist_ok_Inl(1) [of "vscode_dir ruta s" s e1 s1]
    show ?thesis by (simp add: emit_def)
  next
    case (Inr u1)
    note m1 = makedirs_exist_ok_Inr [OF m [unfolded Inr]]
    obtain r2 s2 where ow: "open_w (properties_file ruta s) s1 = (r2, s2)"
      by (cases "open_w (properties_file ruta s) s1")
    show ?thesis
    proof (cases r2)
      case (Inl e2)
      with m Inr ow assms open_w_Inl(1) [of "properties_file ruta s" s1 e2 s2]
      show ?thesis by (simp add: emit_def)
    next
      case f: (Inr f)
      note o = open_w_Inr [OF ow [unfolded f]]
      show ?thesis
      proof (cases b)
        case (Inl e3)
        have "e3 = e" and "s2 = s'"
          using m Inr ow f assms Inl by (simp_all add: emit_def)
        then have "s' = s1\<lparr>fs := (fs s1)(properties_file ruta s \<mapsto> File [])\<rparr>"
          using o(2) by simp
        then show ?thesis
          using m1 Inl \<open>e3 = e\<close> by simp
      next
        case d: (Inr d)
        with m Inr ow f assms show ?thesis by (simp add: emit_def)
      qed
    qed
  qed
qed

lemma built_Inl_ValueError:
  assumes "built c = Inl e"
  shows "\<exists>m. e = ValueError m"
  using assms
  by (cases c) (auto simp: build_config_estandar_def build_config_pybind_def split: if_splits)

lemma emit_existing_dir:
  assumes "fs s (vscode_dir ruta s) = Some Directory"
  shows "emit b ruta s =
     (case open_w (properties_file ruta s) s of
        (Inl e, s2) \<Rightarrow> (Inl e, s2)
      | (Inr f, s2) \<Rightarrow>
          (case b of Inl e \<Rightarrow> (Inl e, s2)
           | Inr d \<Rightarrow> (Inr (), write_text f (json_dump d) s2)))"
  using assms by (simp add: emit_def makedirs_exist_ok_cases)


lemma properties_file_target:
  "target ruta1 s = target ruta2 s1 \<Longrightarrow> properties_file ruta2 s1 = properties_file ruta1 s"
  by (simp add: properties_file_def)

lemma open_w_cases:
  "open_w p s =
     (if fs s p = Some Directory then (Inl (IsADirectoryError p), s)
      else if p \<in> denied s then (Inl (PermissionError p), s)
      else (Inr p, s\<lparr>fs := (fs s)(p \<mapsto> File [])\<rparr>))"
  by (simp add: open_w_def split: option.split node.split)

text \<open>The definitions a concrete run of a method unfolds.\<close>

lemmas persist_defs =
  config_estandar_def config_pybind_def auto_config_estandar_def auto_config_pybind_def
  makedirs_exist_ok_def open_w_def write_text_def getcwd_def Let_def
  build_config_estandar_def build_config_pybind_def py_not_def


section \<open>Validation failure while persisting\<close>

text \<open>
  A run of \<^verbatim>\<open>Cpp_config().config_estandar("proj")\<close> in an empty file system: the call
  ends with the \<^verbatim>\<open>ValueError\<close> of the missing compiler path, and by then the directory
  \<^verbatim>\<open>proj/.vscode\<close> and an empty file \<^verbatim>\<open>proj/.vscode/c_cpp_properties.json\<close> exist,
  neither of which existed before. So the error is not raised before the file
  operations, and the failing call does leave a file behind.
\<close>

theorem persist_invalid_counterexample:
  "fst (config_estandar \<lparr>ruta_compilador = None, python_dll = None, pybind11_dll = None\<rparr>
          (Some ''proj'') \<lparr>cwd = ''/home/dev'', fs = Map.empty, denied = {}\<rparr>)
     = Inl (ValueError ''ruta_compilador es requerido'') \<and>
   fs (snd (config_estandar \<lparr>ruta_compilador = None, python_dll = None, pybind11_dll = None\<rparr>
          (Some ''proj'') \<lparr>cwd = ''/home/dev'', fs = Map.empty, denied = {}\<rparr>))
      ''proj/.vscode'' = Some Directory \<and>
   fs (snd (config_estandar \<lparr>ruta_compilador = None, python_dll = None, pybind11_dll = None\<rparr>
          (Some ''proj'') \<lparr>cwd = ''/home/dev'', fs = Map.empty, denied = {}\<rparr>))
      ''proj/.vscode/c_cpp_properties.json'' = Some (File []) \<and>
   fs \<lparr>cwd = ''/home/dev'', fs = Map.empty, denied = {}\<rparr> ''proj/.vscode'' = None \<and>
   fs \<lparr>cwd = ''/home/dev'', fs = Map.empty, denied = {}\<rparr>
      ''proj/.vscode/c_cpp_properties.json'' = None"
  by (simp add: persist_defs)

text \<open>
  Claim C1, as the code has it. When the builder of a persistence call fails, the call
  ends with an error and no record is serialised: the output file is afterwards either
  what it was or empty. The builder's \<^verbatim>\<open>ValueError\<close> is raised only after the
  directory has been ensured and the file has been opened for writing: whenever that
  error is the one the call ends with, the subdirectory exists and the output file
  exists and is empty, whatever it held before; and it is the error the call ends
  with whenever the subdirectory exists or can be created and the output file can be
  opened. (The other errors are those of \<^verbatim>\<open>os.makedirs\<close> and \<^verbatim>\<open>open\<close>, which come
  first.)
\<close>

theorem persist_invalid_error_after_io:
  assumes "built c = Inl e"
  shows "\<exists>e' s'. run c ruta s = (Inl e', s') \<and>
           (fs s' (properties_file ruta s) = fs s (properties_file ruta s) \<or>
            fs s' (properties_file ruta s) = Some (File [])) \<and>
           (e' = e \<longrightarrow>
              fs s' (vscode_dir ruta s) = Some Directory \<and>
              fs s' (properties_file ruta s) = Some (File [])) \<and>
           ((fs s (vscode_dir ruta s) = Some Directory \<or>
             fs s (vscode_dir ruta s) = None \<and> vscode_dir ruta s \<notin> denied s) \<and>
            fs s (properties_file ruta s) \<noteq> Some Directory \<and>
            properties_file ruta s \<notin> denied s \<longrightarrow> e' = e)"
proof -
  let ?dir = "vscode_dir ruta s" and ?file = "properties_file ruta s"
  let ?io = "(fs s ?dir = Some Directory \<or> fs s ?dir = None \<and> ?dir \<notin> denied s) \<and>
             fs s ?file \<noteq> Some Directory \<and> ?file \<notin> denied s"
  obtain r s' where run: "emit (Inl e) ruta s = (r, s')"
    by (cases "emit (Inl e) ruta s")
  from built_Inl_ValueError [OF assms] obtain m where e: "e = ValueError m" ..
  have neq: "?file \<noteq> ?dir"
    using vscode_dir_neq_properties_file [of ruta s] by simp
  show ?thesis
  proof (cases r)
    case (Inr u)
    with run emit_Inr [of "Inl e" ruta s u s'] show ?thesis by simp
  next
    case (Inl e')
    from emit_Inl [OF run [unfolded Inl]]
    consider
      (mk) "makedirs_exist_ok ?dir s = (Inl e', s')" "s' = s"
    | (op) s1 where "makedirs_exist_ok ?dir s = (Inr (), s1)"
        "open_w ?file s1 = (Inl e', s')" "s' = s1"
    | (val) "e' = e"
        "fs s' = (fs s)(?dir \<mapsto> Directory, ?file \<mapsto> File [])"
      by blast
    then have
      "(fs s' ?file = fs s ?file \<or> fs s' ?file = Some (File [])) \<and>
       (e' = e \<longrightarrow> fs s' ?dir = Some Directory \<and> fs s' ?file = Some (File [])) \<and>
       (?io \<longrightarrow> e' = e)"
    proof cases
      case mk
      from makedirs_exist_ok_Inl(2) [OF mk(1)] e have "e' \<noteq> e" by auto
      moreover from mk(1) have "\<not> ?io"
        by (auto simp add: makedirs_exist_ok_cases split: if_splits)
      ultimately show ?thesis using mk(2) by simp
    next
      case op
      note s1 = makedirs_exist_ok_Inr [OF op(1)]
      from open_w_Inl(2) [OF op(2)] e have "e' \<noteq> e" by auto
      moreover from s1(1) op(3) neq have "fs s' ?file = fs s ?file" by simp
      moreover from op(2) s1(1,3) neq have "\<not> ?io"
        by (auto simp add: open_w_cases split: if_splits)
      ultimately show ?thesis by simp
    next
      case val
      with neq show ?thesis by simp
    qed
    with run Inl assms show ?thesis by (simp add: run_emit)
  qed
qed


theorem persist_invalid_error_after_io_witness:
  "built (Config_pybind \<lparr>ruta_compilador = Some ''/cl.exe'', python_dll = None,
                          pybind11_dll = None\<rparr>)
     = Inl (ValueError ''python_dll es requerido'') \<and>
   (\<exists>s'. run (Config_pybind \<lparr>ruta_compilador = Some ''/cl.exe'', python_dll = None,
                               pybind11_dll = None\<rparr>)
             None \<lparr>cwd = ''/home/dev'', fs = Map.empty, denied = {}\<rparr>
           = (Inl (ValueError ''python_dll es requerido''), s') \<and>
         fs s' ''/home/dev/.vscode'' = Some Directory \<and>
         fs s' ''/home/dev/.vscode/c_cpp_properties.json'' = Some (File []))"
proof -
  let ?c = "Config_pybind \<lparr>ruta_compilador = Some ''/cl.exe'', python_dll = None,
                            pybind11_dll = None\<rparr>"
  let ?s = "\<lparr>cwd = ''/home/dev'', fs = Map.empty, denied = {}\<rparr>"
  have b: "built ?c = Inl (ValueError ''python_dll es requerido'')"
    by (simp add: build_config_pybind_def py_not_def)
  have io: "fs ?s (vscode_dir None ?s) = None \<and> vscode_dir None ?s \<notin> denied ?s \<and>
            fs ?s (properties_file None ?s) \<noteq> Some Directory \<and>
            properties_file None ?s \<notin> denied ?s"
    by simp
  from persist_invalid_error_after_io [OF b, of None ?s] io b
  show ?thesis
    by (auto simp add: vscode_dir_def properties_file_def target_def)
qed


section \<open>The records the validating builder builds\<close>

text \<open>
  Claim C3. For non-empty strings \<open>compiler_path\<close>, \<open>aux1\<close> (\<^verbatim>\<open>python_dll\<close>) and
  \<open>aux2\<close> (\<^verbatim>\<open>pybind11_dll\<close>), building the extended profile succeeds; the record has
  one profile, whose \<^verbatim>\<open>includePath\<close> is the wildcard, then \<open>aux2\<close>, then \<open>aux1\<close>, and
  whose \<^verbatim>\<open>compilerPath\<close> is \<open>compiler_path\<close>.
\<close>

theorem build_config_pybind_extended:
  assumes "compiler_path \<noteq> []" and "aux1 \<noteq> []" and "aux2 \<noteq> []"
  shows "\<exists>d c. build_config_pybind
                 \<lparr>ruta_compilador = Some compiler_path, python_dll = Some aux1,
                  pybind11_dll = Some aux2\<rparr>
               = Inr d \<and>
               configurations d = [c] \<and>
               includePath c = [''${workspaceFolder}/**'', aux2, aux1] \<and>
               compilerPath c = compiler_path"
  using assms by (simp add: build_config_pybind_def py_not_def)

theorem build_config_pybind_extended_witness:
  "''/cl.exe'' \<noteq> [] \<and> ''/py/include'' \<noteq> [] \<and> ''/pybind/include'' \<noteq> [] \<and>
   (\<exists>d c. build_config_pybind
            \<lparr>ruta_compilador = Some ''/cl.exe'', python_dll = Some ''/py/include'',
             pybind11_dll = Some ''/pybind/include''\<rparr> = Inr d \<and>
          configurations d = [c] \<and>
          includePath c = [''${workspaceFolder}/**'', ''/pybind/include'', ''/py/include''] \<and>
          compilerPath c = ''/cl.exe'')"
proof -
  have a: "''/cl.exe'' \<noteq> []" and b: "''/py/include'' \<noteq> []" and c: "''/pybind/include'' \<noteq> []"
    by simp_all
  from build_config_pybind_extended [OF a b c] a b c
  show ?thesis by blast
qed

text \<open>
  Claim C4. For a non-empty \<open>compiler_path\<close> and any values of the two auxiliary
  fields, building the plain profile succeeds; the record has one profile, whose
  \<^verbatim>\<open>includePath\<close> is the wildcard alone and whose \<^verbatim>\<open>compilerPath\<close> is
  \<open>compiler_path\<close>.
\<close>

theorem build_config_estandar_plain:
  assumes "compiler_path \<noteq> []"
  shows "\<exists>d c. build_config_estandar
                 \<lparr>ruta_compilador = Some compiler_path, python_dll = aux1, pybind11_dll = aux2\<rparr>
               = Inr d \<and>
               configurations d = [c] \<and>
               includePath c = [''${workspaceFolder}/**''] \<and>
               compilerPath c = compiler_path"
  using assms by (simp add: build_config_estandar_def py_not_def)

theorem build_config_estandar_plain_witness:
  "''/cl.exe'' \<noteq> [] \<and>
   (\<exists>d c. build_config_estandar
            \<lparr>ruta_compilador = Some ''/cl.exe'', python_dll = None,
             pybind11_dll = Some ''/pybind/include''\<rparr> = Inr d \<and>
          configurations d = [c] \<and>
          includePath c = [''${workspaceFolder}/**''] \<and>
          compilerPath c = ''/cl.exe'')"
proof -
  have ne: "''/cl.exe'' \<noteq> []" by simp
  from build_config_estandar_plain [OF ne, of None "Some ''/pybind/include''"] ne
  show ?thesis by blast
qed

text \<open>
  Claim C5. When a required field of the extended profile is missing or empty, the
  builder raises a \<^verbatim>\<open>ValueError\<close> whose message names a missing field: the compiler
  path if that is missing, else the Python include path if that is missing, else the
  pybind11 include path. The first failing check decides, whatever the later fields
  hold.
\<close>

theorem build_config_pybind_first_failing_check:
  assumes "py_not (ruta_compilador self) \<or> py_not (python_dll self) \<or> py_not (pybind11_dll self)"
  shows "build_config_pybind self =
           Inl (ValueError
                 (if py_not (ruta_compilador self) then ''ruta_compilador es requerido''
                  else if py_not (python_dll self) then ''python_dll es requerido''
                  else ''pybind11_dll es requerido''))"
  using assms by (auto simp add: build_config_pybind_def)

theorem build_config_pybind_first_failing_check_witness:
  "\<not> py_not (Some ''/cl.exe'') \<and> py_not (Some []) \<and> py_not None \<and>
   build_config_pybind \<lparr>ruta_compilador = Some ''/cl.exe'', python_dll = Some [],
                        pybind11_dll = None\<rparr>
     = Inl (ValueError ''python_dll es requerido'')"
  using build_config_pybind_first_failing_check
          [of "\<lparr>ruta_compilador = Some ''/cl.exe'', python_dll = Some [], pybind11_dll = None\<rparr>"]
  by (simp add: py_not_def)

text \<open>
  Claim C6. Every record that any of the four build modes hands to the serialiser has
  one profile with \<^verbatim>\<open>name\<close> \<^verbatim>\<open>"MSVC"\<close>, \<^verbatim>\<open>cStandard\<close> \<^verbatim>\<open>"c17"\<close>, \<^verbatim>\<open>cppStandard\<close>
  \<^verbatim>\<open>"c++20"\<close>, \<^verbatim>\<open>intelliSenseMode\<close> \<^verbatim>\<open>"windows-msvc-x64"\<close>, and has \<^verbatim>\<open>version\<close> 4,
  whatever the inputs.
\<close>

theorem fixed_fields_every_build_mode:
  assumes "built c = Inr d"
  shows "fixed_fields d"
proof (cases c)
  case (Config_estandar self)
  with assms show ?thesis
    by (auto simp add: build_config_estandar_def fixed_fields_def split: if_splits)
next
  case (Config_pybind self)
  with assms show ?thesis
    by (auto simp add: build_config_pybind_def fixed_fields_def split: if_splits)
next
  case (Auto_config_estandar self)
  with assms show ?thesis by (auto simp add: estandar_1_def fixed_fields_def)
next
  case (Auto_config_pybind self)
  with assms show ?thesis by (auto simp add: pybind_2_def fixed_fields_def)
qed

theorem fixed_fields_every_build_mode_witness:
  "built (Config_pybind \<lparr>ruta_compilador = Some ''/cl.exe'', python_dll = Some ''/py/include'',
                          pybind11_dll = Some ''/pybind/include''\<rparr>)
     = Inr \<lparr>configurations =
              [\<lparr>name = ''MSVC'',
                includePath = [''${workspaceFolder}/**'', ''/pybind/include'', ''/py/include''],
                compilerPath = ''/cl.exe'',
                cStandard = ''c17'',
                cppStandard = ''c++20'',
                intelliSenseMode = ''windows-msvc-x64''\<rparr>],
            version = 4\<rparr> \<and>
   fixed_fields
     \<lparr>configurations =
        [\<lparr>name = ''MSVC'',
          includePath = [''${workspaceFolder}/**'', ''/pybind/include'', ''/py/include''],
          compilerPath = ''/cl.exe'',
          cStandard = ''c17'',
          cppStandard = ''c++20'',
          intelliSenseMode = ''windows-msvc-x64''\<rparr>],
      version = 4\<rparr>"
proof -
  have b: "built (Config_pybind \<lparr>ruta_compilador = Some ''/cl.exe'',
                    python_dll = Some ''/py/include'', pybind11_dll = Some ''/pybind/include''\<rparr>)
     = Inr \<lparr>configurations =
              [\<lparr>name = ''MSVC'',
                includePath = [''${workspaceFolder}/**'', ''/pybind/include'', ''/py/include''],
                compilerPath = ''/cl.exe'',
                cStandard = ''c17'',
                cppStandard = ''c++20'',
                intelliSenseMode = ''windows-msvc-x64''\<rparr>],
            version = 4\<rparr>"
    by (simp add: build_config_pybind_def py_not_def)
  from fixed_fields_every_build_mode [OF b] b show ?thesis by simp
qed


section \<open>Persisting over an earlier file and into an existing directory\<close>

text \<open>
  Claim C7. Take two persistence calls, of any of the four kinds, aimed at the same
  target directory, the second running in the environment the first left, and both
  successful. After the first call the output file holds the serialisation of the
  first call's record; after the second it holds exactly the serialisation of the
  second call's record, and nothing of the first.
\<close>

theorem persist_twice_overwrites:
  assumes "run c1 ruta1 s = (Inr (), s1)"
    and "run c2 ruta2 s1 = (Inr (), s2)"
    and "target ruta1 s = target ruta2 s1"
  shows "\<exists>d1 d2. built c1 = Inr d1 \<and> built c2 = Inr d2 \<and>
           fs s1 (properties_file ruta1 s) = Some (File (json_dump d1)) \<and>
           fs s2 (properties_file ruta1 s) = Some (File (json_dump d2))"
proof -
  from emit_Inr [OF assms(1) [unfolded run_emit]]
  obtain d1 where d1: "built c1 = Inr d1"
    and f1: "fs s1 = (fs s)(vscode_dir ruta1 s \<mapsto> Directory,
                           properties_file ruta1 s \<mapsto> File (json_dump d1))"
    by blast
  from emit_Inr [OF assms(2) [unfolded run_emit]]
  obtain d2 where d2: "built c2 = Inr d2"
    and f2: "fs s2 = (fs s1)(vscode_dir ruta2 s1 \<mapsto> Directory,
                            properties_file ruta2 s1 \<mapsto> File (json_dump d2))"
    by blast
  have same: "properties_file ruta2 s1 = properties_file ruta1 s"
    using assms(3) by (rule properties_file_target)
  from f1 have "fs s1 (properties_file ruta1 s) = Some (File (json_dump d1))" by simp
  moreover from f2 same have "fs s2 (properties_file ruta1 s) = Some (File (json_dump d2))"
    by simp
  ultimately show ?thesis using d1 d2 by blast
qed

theorem persist_twice_overwrites_witness:
  "fst (run (Auto_config_pybind ()) (Some ''proj'')
          \<lparr>cwd = ''/home/dev'', fs = Map.empty, denied = {}\<rparr>) = Inr () \<and>
   fst (run (Config_estandar \<lparr>ruta_compilador = Some ''/cl.exe'', python_dll = None,
                              pybind11_dll = None\<rparr>) (Some ''proj'')
          (snd (run (Auto_config_pybind ()) (Some ''proj'')
                  \<lparr>cwd = ''/home/dev'', fs = Map.empty, denied = {}\<rparr>))) = Inr () \<and>
   fs (snd (run (Auto_config_pybind ()) (Some ''proj'')
              \<lparr>cwd = ''/home/dev'', fs = Map.empty, denied = {}\<rparr>))
      ''proj/.vscode/c_cpp_properties.json'' = Some (File (json_dump pybind_2)) \<and>
   fs (snd (run (Config_estandar \<lparr>ruta_compilador = Some ''/cl.exe'', python_dll = None,
                                  pybind11_dll = None\<rparr>) (Some ''proj'')
              (snd (run (Auto_config_pybind ()) (Some ''proj'')
                      \<lparr>cwd = ''/home/dev'', fs = Map.empty, denied = {}\<rparr>))))
      ''proj/.vscode/c_cpp_properties.json''
     = Some (File (json_dump
         \<lparr>configurations =
            [\<lparr>name = ''MSVC'',
              includePath = [''${workspaceFolder}/**''],
              compilerPath = ''/cl.exe'',
              cStandard = ''c17'',
              cppStandard = ''c++20'',
              intelliSenseMode = ''windows-msvc-x64''\<rparr>],
          version = 4\<rparr>))"
proof -
  let ?s = "\<lparr>cwd = ''/home/dev'', fs = Map.empty, denied = {}\<rparr>"
  let ?c1 = "Auto_config_pybind ()"
  let ?c2 = "Config_estandar \<lparr>ruta_compilador = Some ''/cl.exe'', python_dll = None,
                              pybind11_dll = None\<rparr>"
  let ?s1 = "snd (run ?c1 (Some ''proj'') ?s)"
  let ?s2 = "snd (run ?c2 (Some ''proj'') ?s1)"
  have r1: "fst (run ?c1 (Some ''proj'') ?s) = Inr ()"
    by (simp add: persist_defs)
  have r2: "fst (run ?c2 (Some ''proj'') ?s1) = Inr ()"
    by (simp add: persist_defs)
  have h1: "run ?c1 (Some ''proj'') ?s = (Inr (), ?s1)"
    using r1 by (simp add: prod_eq_iff)
  have h2: "run ?c2 (Some ''proj'') ?s1 = (Inr (), ?s2)"
    using r2 by (simp add: prod_eq_iff)
  have t: "target (Some ''proj'') ?s = target (Some ''proj'') ?s1"
    by (simp add: target_def)
  have b2: "built ?c2 = Inr \<lparr>configurations =
            [\<lparr>name = ''MSVC'',
              includePath = [''${workspaceFolder}/**''],
              compilerPath = ''/cl.exe'',
              cStandard = ''c17'',
              cppStandard = ''c++20'',
              intelliSenseMode = ''windows-msvc-x64''\<rparr>],
          version = 4\<rparr>"
    by (simp add: build_config_estandar_def py_not_def)
  have p: "properties_file (Some ''proj'') ?s = ''proj/.vscode/c_cpp_properties.json''"
    by (simp add: properties_file_def target_def)
  from persist_twice_overwrites [OF h1 h2 t] b2
  have "fs ?s1 (properties_file (Some ''proj'') ?s) = Some (File (json_dump pybind_2)) \<and>
        fs ?s2 (properties_file (Some ''proj'') ?s) = Some (File (json_dump
         \<lparr>configurations =
            [\<lparr>name = ''MSVC'',
              includePath = [''${workspaceFolder}/**''],
              compilerPath = ''/cl.exe'',
              cStandard = ''c17'',
              cppStandard = ''c++20'',
              intelliSenseMode = ''windows-msvc-x64''\<rparr>],
          version = 4\<rparr>))"
    by auto
  with r1 r2 show ?thesis unfolding p by blast
qed

text \<open>
  Claim C8. Take a persistence call whose builder succeeds, with \<^verbatim>\<open>.vscode\<close> under the
  target directory already a directory. Then \<^verbatim>\<open>os.makedirs\<close> succeeds and changes
  nothing; any error the call ends with is the error of opening the output file; and
  when the output file can be opened (it is not a directory and writing it is not
  refused) the call succeeds and the file holds the serialisation of the record.
\<close>

theorem persist_existing_vscode_dir:
  assumes "built c = Inr d" and "fs s (vscode_dir ruta s) = Some Directory"
  shows "makedirs_exist_ok (vscode_dir ruta s) s = (Inr (), s) \<and>
         (\<forall>e s'. run c ruta s = (Inl e, s') \<longrightarrow> open_w (properties_file ruta s) s = (Inl e, s')) \<and>
         (fs s (properties_file ruta s) \<noteq> Some Directory \<and> properties_file ruta s \<notin> denied s
            \<longrightarrow> run c ruta s =
                  (Inr (), s\<lparr>fs := (fs s)(properties_file ruta s \<mapsto> File (json_dump d))\<rparr>))"
proof -
  have mk: "makedirs_exist_ok (vscode_dir ruta s) s = (Inr (), s)"
    using assms(2) by (simp add: makedirs_exist_ok_cases)
  have run: "run c ruta s =
     (case open_w (properties_file ruta s) s of
        (Inl e, s2) \<Rightarrow> (Inl e, s2)
      | (Inr f, s2) \<Rightarrow> (Inr (), write_text f (json_dump d) s2))"
    unfolding run_emit assms(1) emit_existing_dir [OF assms(2)] sum.case by (rule refl)
  have err: "\<forall>e s'. run c ruta s = (Inl e, s') \<longrightarrow> open_w (properties_file ruta s) s = (Inl e, s')"
    unfolding run by (auto split: prod.splits sum.splits)
  have ok: "fs s (properties_file ruta s) \<noteq> Some Directory \<and> properties_file ruta s \<notin> denied s
            \<longrightarrow> run c ruta s =
                  (Inr (), s\<lparr>fs := (fs s)(properties_file ruta s \<mapsto> File (json_dump d))\<rparr>)"
    unfolding run by (simp add: open_w_cases write_text_fresh)
  from mk err ok show ?thesis by blast
qed

theorem persist_existing_vscode_dir_witness:
  "built (Config_estandar \<lparr>ruta_compilador = Some ''/cl.exe'', python_dll = None,
                            pybind11_dll = None\<rparr>)
     = Inr \<lparr>configurations =
              [\<lparr>name = ''MSVC'',
                includePath = [''${workspaceFolder}/**''],
                compilerPath = ''/cl.exe'',
                cStandard = ''c17'',
                cppStandard = ''c++20'',
                intelliSenseMode = ''windows-msvc-x64''\<rparr>],
            version = 4\<rparr> \<and>
   fs \<lparr>cwd = ''/home/dev'', fs = [''proj/.vscode'' \<mapsto> Directory], denied = {}\<rparr>
      (vscode_dir (Some ''proj'')
         \<lparr>cwd = ''/home/dev'', fs = [''proj/.vscode'' \<mapsto> Directory], denied = {}\<rparr>)
     = Some Directory \<and>
   run (Config_estandar \<lparr>ruta_compilador = Some ''/cl.exe'', python_dll = None,
                          pybind11_dll = None\<rparr>) (Some ''proj'')
       \<lparr>cwd = ''/home/dev'', fs = [''proj/.vscode'' \<mapsto> Directory], denied = {}\<rparr>
     = (Inr (),
        \<lparr>cwd = ''/home/dev'',
         fs = [''proj/.vscode'' \<mapsto> Directory,
               ''proj/.vscode/c_cpp_properties.json'' \<mapsto>
                 File (json_dump
                   \<lparr>configurations =
                      [\<lparr>name = ''MSVC'',
                        includePath = [''${workspaceFolder}/**''],
                        compilerPath = ''/cl.exe'',
                        cStandard = ''c17'',
                        cppStandard = ''c++20'',
                        intelliSenseMode = ''windows-msvc-x64''\<rparr>],
                    version = 4\<rparr>)],
         denied = {}\<rparr>) \<and>
   run (Auto_config_pybind ()) None
       \<lparr>cwd = ''/w'', fs = [''/w/.vscode'' \<mapsto> Directory],
        denied = {''/w/.vscode/c_cpp_properties.json''}\<rparr>
     = (Inl (PermissionError ''/w/.vscode/c_cpp_properties.json''),
        \<lparr>cwd = ''/w'', fs = [''/w/.vscode'' \<mapsto> Directory],
         denied = {''/w/.vscode/c_cpp_properties.json''}\<rparr>) \<and>
   open_w (properties_file None
             \<lparr>cwd = ''/w'', fs = [''/w/.vscode'' \<mapsto> Directory],
              denied = {''/w/.vscode/c_cpp_properties.json''}\<rparr>)
       \<lparr>cwd = ''/w'', fs = [''/w/.vscode'' \<mapsto> Directory],
        denied = {''/w/.vscode/c_cpp_properties.json''}\<rparr>
     = (Inl (PermissionError ''/w/.vscode/c_cpp_properties.json''),
        \<lparr>cwd = ''/w'', fs = [''/w/.vscode'' \<mapsto> Directory],
         denied = {''/w/.vscode/c_cpp_properties.json''}\<rparr>)"
proof -
  let ?c = "Config_estandar \<lparr>ruta_compilador = Some ''/cl.exe'', python_dll = None,
                             pybind11_dll = None\<rparr>"
  let ?s = "\<lparr>cwd = ''/home/dev'', fs = [''proj/.vscode'' \<mapsto> Directory], denied = {}\<rparr>"
  let ?d = "\<lparr>configurations =
              [\<lparr>name = ''MSVC'',
                includePath = [''${workspaceFolder}/**''],
                compilerPath = ''/cl.exe'',
                cStandard = ''c17'',
                cppStandard = ''c++20'',
                intelliSenseMode = ''windows-msvc-x64''\<rparr>],
            version = 4\<rparr>"
  let ?w = "\<lparr>cwd = ''/w'', fs = [''/w/.vscode'' \<mapsto> Directory],
            denied = {''/w/.vscode/c_cpp_properties.json''}\<rparr>"
  have b: "built ?c = Inr ?d"
    by (simp add: build_config_estandar_def py_not_def)
  have v: "fs ?s (vscode_dir (Some ''proj'') ?s) = Some Directory"
    by (simp add: vscode_dir_def target_def)
  have p: "properties_file (Some ''proj'') ?s = ''proj/.vscode/c_cpp_properties.json''"
    by (simp add: properties_file_def target_def)
  have free: "fs ?s (properties_file (Some ''proj'') ?s) \<noteq> Some Directory \<and>
              properties_file (Some ''proj'') ?s \<notin> denied ?s"
    by (simp add: p)
  from persist_existing_vscode_dir [OF b v] free
  have "run ?c (Some ''proj'') ?s =
          (Inr (), ?s\<lparr>fs := (fs ?s)(properties_file (Some ''proj'') ?s \<mapsto> File (json_dump ?d))\<rparr>)"
    by blast
  then have ok: "run ?c (Some ''proj'') ?s =
          (Inr (), \<lparr>cwd = ''/home/dev'',
             fs = [''proj/.vscode'' \<mapsto> Directory,
                   ''proj/.vscode/c_cpp_properties.json'' \<mapsto> File (json_dump ?d)],
             denied = {}\<rparr>)"
    by (simp add: p)
  have b': "built (Auto_config_pybind ()) = Inr pybind_2"
    by simp
  have v': "fs ?w (vscode_dir None ?w) = Some Directory"
    by (simp add: vscode_dir_def target_def)
  have r': "run (Auto_config_pybind ()) None ?w
              = (Inl (PermissionError ''/w/.vscode/c_cpp_properties.json''), ?w)"
    by (simp add: persist_defs)
  from persist_existing_vscode_dir [OF b' v'] r'
  have "open_w (properties_file None ?w) ?w
          = (Inl (PermissionError ''/w/.vscode/c_cpp_properties.json''), ?w)"
    by blast
  with b v ok r' show ?thesis by blast
qed


section \<open>The preset builder\<close>

text \<open>
  Claim C2 says that the preset builder's plain mode serialises a constant whose
  \<^verbatim>\<open>includePath\<close> holds the wildcard alone, distinct from the extended constant. The
  run \<^verbatim>\<open>Cpp_config_auto().config_estandar("proj")\<close> in an empty file system writes
  \<^verbatim>\<open>estandar_1\<close>, whose \<^verbatim>\<open>includePath\<close> has three entries, the pybind11 and Python
  include directories after the wildcard, and \<^verbatim>\<open>estandar_1\<close> equals \<^verbatim>\<open>pybind_2\<close>. The
  method's docstring says "sin incluir pybind11", and the validating builder's plain
  record has the wildcard alone.
\<close>

theorem preset_plain_includes_pybind:
  "fst (auto_config_estandar () (Some ''proj'')
          \<lparr>cwd = ''/home/dev'', fs = Map.empty, denied = {}\<rparr>) = Inr () \<and>
   fs (snd (auto_config_estandar () (Some ''proj'')
              \<lparr>cwd = ''/home/dev'', fs = Map.empty, denied = {}\<rparr>))
      ''proj/.vscode/c_cpp_properties.json'' = Some (File (json_dump estandar_1)) \<and>
   map includePath (configurations estandar_1) =
     [[''${workspaceFolder}/**'',
       ''C:/Users/SZ/AppData/Local/Programs/Python/Python312/Lib/site-packages/pybind11/include'',
       ''C:/Users/SZ/AppData/Local/Programs/Python/Python312/include'']] \<and>
   estandar_1 = pybind_2"
proof -
  have "map includePath (configurations estandar_1) =
     [[''${workspaceFolder}/**'',
       ''C:/Users/SZ/AppData/Local/Programs/Python/Python312/Lib/site-packages/pybind11/include'',
       ''C:/Users/SZ/AppData/Local/Programs/Python/Python312/include'']]"
    and "estandar_1 = pybind_2"
    by (simp_all add: estandar_1_def pybind_2_def)
  moreover have "fst (auto_config_estandar () (Some ''proj'')
          \<lparr>cwd = ''/home/dev'', fs = Map.empty, denied = {}\<rparr>) = Inr ()"
    and "fs (snd (auto_config_estandar () (Some ''proj'')
              \<lparr>cwd = ''/home/dev'', fs = Map.empty, denied = {}\<rparr>))
      ''proj/.vscode/c_cpp_properties.json'' = Some (File (json_dump estandar_1))"
    by (simp_all add: persist_defs)
  ultimately show ?thesis by blast
qed

text \<open>
  Claim C9. Two successful invocations of \<^verbatim>\<open>Cpp_config_auto.config_estandar\<close>, on any
  instances, with any arguments and in any environments, both leave the serialisation
  of the constant \<^verbatim>\<open>estandar_1\<close> in their output files; likewise
  \<^verbatim>\<open>Cpp_config_auto.config_pybind\<close> with \<^verbatim>\<open>pybind_2\<close>. In one environment, two
  invocations of the same method aimed at the same target directory have the same
  outcome, whatever the instances and however the directory was given.
\<close>

theorem preset_output_constant:
  "(auto_config_estandar self1 ruta1 s1 = (Inr (), t1) \<and>
    auto_config_estandar self2 ruta2 s2 = (Inr (), t2) \<longrightarrow>
      fs t1 (properties_file ruta1 s1) = Some (File (json_dump estandar_1)) \<and>
      fs t2 (properties_file ruta2 s2) = Some (File (json_dump estandar_1))) \<and>
   (auto_config_pybind self1 ruta1 s1 = (Inr (), t1) \<and>
    auto_config_pybind self2 ruta2 s2 = (Inr (), t2) \<longrightarrow>
      fs t1 (properties_file ruta1 s1) = Some (File (json_dump pybind_2)) \<and>
      fs t2 (properties_file ruta2 s2) = Some (File (json_dump pybind_2))) \<and>
   (target ruta1 s = target ruta2 s \<longrightarrow>
      auto_config_estandar self1 ruta1 s = auto_config_estandar self2 ruta2 s \<and>
      auto_config_pybind self1 ruta1 s = auto_config_pybind self2 ruta2 s)"
proof -
  have written: "fs t (properties_file ruta s) = Some (File (json_dump d))"
    if "emit (Inr d) ruta s = (Inr (), t)" for d ruta s t
    using emit_Inr [OF that] by auto
  have e: "auto_config_estandar self = emit (Inr estandar_1)" for self
    using run_emit [of "Auto_config_estandar self"] by (simp add: fun_eq_iff)
  have p: "auto_config_pybind self = emit (Inr pybind_2)" for self
    using run_emit [of "Auto_config_pybind self"] by (simp add: fun_eq_iff)
  have same: "emit b ruta1 s = emit b ruta2 s" if "target ruta1 s = target ruta2 s" for b
  proof -
    from that have v: "vscode_dir ruta1 s = vscode_dir ruta2 s"
      and f: "properties_file ruta1 s = properties_file ruta2 s"
      by (simp_all add: vscode_dir_def properties_file_def)
    show ?thesis unfolding emit_def v f by (rule refl)
  qed
  show ?thesis
    unfolding e p using written same by blast
qed

theorem preset_output_constant_witness:
  "fst (auto_config_estandar () (Some ''a'') \<lparr>cwd = ''/b'', fs = Map.empty, denied = {}\<rparr>)
     = Inr () \<and>
   fst (auto_config_estandar () None \<lparr>cwd = ''/b'', fs = Map.empty, denied = {}\<rparr>)
     = Inr () \<and>
   fs (snd (auto_config_estandar () (Some ''a'')
              \<lparr>cwd = ''/b'', fs = Map.empty, denied = {}\<rparr>))
      ''a/.vscode/c_cpp_properties.json'' = Some (File (json_dump estandar_1)) \<and>
   fs (snd (auto_config_estandar () None \<lparr>cwd = ''/b'', fs = Map.empty, denied = {}\<rparr>))
      ''/b/.vscode/c_cpp_properties.json'' = Some (File (json_dump estandar_1)) \<and>
   fst (auto_config_pybind () (Some ''a'') \<lparr>cwd = ''/b'', fs = Map.empty, denied = {}\<rparr>)
     = Inr () \<and>
   fst (auto_config_pybind () None \<lparr>cwd = ''/b'', fs = Map.empty, denied = {}\<rparr>)
     = Inr () \<and>
   fs (snd (auto_config_pybind () (Some ''a'')
              \<lparr>cwd = ''/b'', fs = Map.empty, denied = {}\<rparr>))
      ''a/.vscode/c_cpp_properties.json'' = Some (File (json_dump pybind_2)) \<and>
   fs (snd (auto_config_pybind () None \<lparr>cwd = ''/b'', fs = Map.empty, denied = {}\<rparr>))
      ''/b/.vscode/c_cpp_properties.json'' = Some (File (json_dump pybind_2)) \<and>
   target (Some ''/b'') \<lparr>cwd = ''/b'', fs = Map.empty, denied = {}\<rparr>
     = target None \<lparr>cwd = ''/b'', fs = Map.empty, denied = {}\<rparr> \<and>
   auto_config_estandar () (Some ''/b'') \<lparr>cwd = ''/b'', fs = Map.empty, denied = {}\<rparr>
     = auto_config_estandar () None \<lparr>cwd = ''/b'', fs = Map.empty, denied = {}\<rparr> \<and>
   auto_config_pybind () (Some ''/b'') \<lparr>cwd = ''/b'', fs = Map.empty, denied = {}\<rparr>
     = auto_config_pybind () None \<lparr>cwd = ''/b'', fs = Map.empty, denied = {}\<rparr>"
proof -
  let ?s = "\<lparr>cwd = ''/b'', fs = Map.empty, denied = {}\<rparr>"
  have e1: "fst (auto_config_estandar () (Some ''a'') ?s) = Inr ()"
    and e2: "fst (auto_config_estandar () None ?s) = Inr ()"
    and p1: "fst (auto_config_pybind () (Some ''a'') ?s) = Inr ()"
    and p2: "fst (auto_config_pybind () None ?s) = Inr ()"
    by (simp_all add: persist_defs)
  have he1: "auto_config_estandar () (Some ''a'') ?s
               = (Inr (), snd (auto_config_estandar () (Some ''a'') ?s))"
    and he2: "auto_config_estandar () None ?s = (Inr (), snd (auto_config_estandar () None ?s))"
    and hp1: "auto_config_pybind () (Some ''a'') ?s
               = (Inr (), snd (auto_config_pybind () (Some ''a'') ?s))"
    and hp2: "auto_config_pybind () None ?s = (Inr (), snd (auto_config_pybind () None ?s))"
    using e1 e2 p1 p2 by (simp_all add: prod_eq_iff)
  have fa: "properties_file (Some ''a'') ?s = ''a/.vscode/c_cpp_properties.json''"
    and fb: "properties_file None ?s = ''/b/.vscode/c_cpp_properties.json''"
    and t: "target (Some ''/b'') ?s = target None ?s"
    by (simp_all add: properties_file_def target_def)
  note inst_e = preset_output_constant
    [of "()" "Some ''a''" ?s "snd (auto_config_estandar () (Some ''a'') ?s)"
        "()" None ?s "snd (auto_config_estandar () None ?s)"]
  note inst_p = preset_output_constant
    [of "()" "Some ''a''" ?s "snd (auto_config_pybind () (Some ''a'') ?s)"
        "()" None ?s "snd (auto_config_pybind () None ?s)"]
  note inst_t = preset_output_constant [of "()" "Some ''/b''" ?s _ "()" None ?s _ ?s]
  from inst_e he1 he2
  have w1: "fs (snd (auto_config_estandar () (Some ''a'') ?s)) (properties_file (Some ''a'') ?s)
              = Some (File (json_dump estandar_1)) \<and>
            fs (snd (auto_config_estandar () None ?s)) (properties_file None ?s)
              = Some (File (json_dump estandar_1))"
    by blast
  from inst_p hp1 hp2
  have w2: "fs (snd (auto_config_pybind () (Some ''a'') ?s)) (properties_file (Some ''a'') ?s)
              = Some (File (json_dump pybind_2)) \<and>
            fs (snd (auto_config_pybind () None ?s)) (properties_file None ?s)
              = Some (File (json_dump pybind_2))"
    by blast
  from inst_t t
  have w3: "auto_config_estandar () (Some ''/b'') ?s = auto_config_estandar () None ?s \<and>
            auto_config_pybind () (Some ''/b'') ?s = auto_config_pybind () None ?s"
    by blast
  from e1 e2 p1 p2 w1 w2 w3 t show ?thesis unfolding fa fb by blast
qed

text \<open>
  Claim C10. The constants \<^verbatim>\<open>estandar_1\<close> and \<^verbatim>\<open>pybind_2\<close> are equal as values, and so
  the preset builder's plain and extended persistence operations have the same outcome
  for the same argument in the same environment: they write identical file content.
\<close>

theorem preset_constants_equal:
  "estandar_1 = pybind_2 \<and>
   auto_config_estandar self ruta s = auto_config_pybind self' ruta s"
proof -
  have eq: "estandar_1 = pybind_2"
    by (simp add: estandar_1_def pybind_2_def)
  have "auto_config_estandar self ruta s = auto_config_pybind self' ruta s"
    unfolding auto_config_estandar_def auto_config_pybind_def eq by (rule refl)
  with eq show ?thesis by (rule conjI)
qed

end
